theory Spec2Isabelle
  imports Complex_Main "HOL-Library.Word"
begin

section \<open>Streams and the Mixer of \<open>device.cpp\<close>\<close>

text \<open>
  The program has two classes that matter: \<open>Stream\<close> (a name and a mass flow) and
  \<open>Mixer\<close>, a \<open>Device\<close> holding two vectors of \<open>shared_ptr<Stream>\<close>. The two source
  files (\<open>src/device.cpp\<close> and \<open>src/unnamed/part_000\<close>) contain the same class
  definitions, so one embedding covers both.

  Modelling decisions:
  \<^item> A \<open>shared_ptr<Stream>\<close> is a reference (\<open>ref\<close>, an address) into a store of stream
    objects. Two equal references are the same stream object, so aliasing between the
    inputs and the outputs of a mixer is visible. Every reference is taken to point to
    a live stream: dereferencing an empty \<open>shared_ptr\<close> is undefined behaviour in C++
    and is not modelled.
  \<^item> The C++ type \<open>double\<close> is the type variable \<open>'d\<close>. The code uses exactly four
    operations on it: the literal \<open>0\<close>, \<open>+\<close>, \<open>/\<close>, and the implicit conversion of
    \<open>outputs.size()\<close> to \<open>double\<close>. The first three are the constants of the syntactic
    classes \<open>zero\<close>, \<open>plus\<close> and \<open>inverse\<close>, which assume no law at all; the conversion
    is the parameter \<open>size_to_double\<close>. No rounding behaviour is assumed: where a
    property needs an arithmetic fact such as \<open>0 + a = a\<close>, the fact is a visible
    premise. Instantiating \<open>'d\<close> with \<open>real\<close> and \<open>size_to_double\<close> with \<open>real\<close> gives the
    exact-arithmetic reading.
  \<^item> \<open>int\<close> is a 32-bit word read as two's complement, \<open>size_t\<close> a 64-bit unsigned
    word (LP64). A vector's size is the length of a list.
  \<^item> A member function that may throw returns a pair: the outcome (\<open>Inl\<close> of the thrown
    \<open>std::string\<close>, or \<open>Inr ()\<close> for a normal return) and the state in which the call
    left the object it works on.
\<close>

subsection \<open>Stream\<close>

type_synonym ref = nat

record 'd Stream =
  mass_flow :: 'd
  name :: string

definition setName :: "string \<Rightarrow> 'd Stream \<Rightarrow> 'd Stream" where
  "setName s this = this\<lparr>name := s\<rparr>"

definition getName :: "'d Stream \<Rightarrow> string" where
  "getName this = name this"

definition setMassFlow :: "'d \<Rightarrow> 'd Stream \<Rightarrow> 'd Stream" where
  "setMassFlow m this = this\<lparr>mass_flow := m\<rparr>"

definition getMassFlow :: "'d Stream \<Rightarrow> 'd" where
  "getMassFlow this = mass_flow this"

text \<open>The store of stream objects, and the two calls made through a pointer
  (\<open>s -> setMassFlow(m)\<close> and \<open>s -> getMassFlow()\<close>).\<close>

type_synonym 'd heap = "ref \<Rightarrow> 'd Stream"

definition call_setMassFlow :: "ref \<Rightarrow> 'd \<Rightarrow> 'd heap \<Rightarrow> 'd heap" where
  "call_setMassFlow s m h = h(s := setMassFlow m (h s))"

definition call_getMassFlow :: "ref \<Rightarrow> 'd heap \<Rightarrow> 'd" where
  "call_getMassFlow s h = getMassFlow (h s)"

subsection \<open>Mixer\<close>

text \<open>
  \<open>inputs\<close> and \<open>outputs\<close> are the protected vectors of \<open>Device\<close>; \<open>inputs_count\<close> is
  the private member \<open>_inputs_count\<close> of \<open>Mixer\<close> (an Isabelle name cannot start with
  an underscore). \<open>Device\<close> also declares \<open>inputAmount\<close> and \<open>outputAmount\<close>; no
  constructor initialises them and no member function of \<open>Mixer\<close> reads them
  (\<open>Mixer::addInput\<close> and \<open>Mixer::addOutput\<close> hide the ones of \<open>Device\<close>), so they
  are left out.
\<close>

record Mixer =
  inputs :: "ref list"
  outputs :: "ref list"
  inputs_count :: "32 word"

definition MIXER_OUTPUTS :: "32 word" where
  "MIXER_OUTPUTS = 1"

text \<open>The usual arithmetic conversion applied to an \<open>int\<close> operand that is compared
  with a \<open>size_t\<close>: sign extension to 64 bits, read as unsigned.\<close>

definition int_to_size_t :: "32 word \<Rightarrow> nat" where
  "int_to_size_t i = unat (scast i :: 64 word)"

text \<open>\<open>Mixer(int inputs_count)\<close>: both vectors start empty.\<close>

definition new_Mixer :: "32 word \<Rightarrow> Mixer" where
  "new_Mixer n = \<lparr>inputs = [], outputs = [], inputs_count = n\<rparr>"

type_synonym outcome = "string + unit"

definition addInput :: "ref \<Rightarrow> Mixer \<Rightarrow> outcome \<times> Mixer" where
  "addInput s this =
     (if length (inputs this) = int_to_size_t (inputs_count this)
      then (Inl ''Too much inputs'', this)
      else (Inr (), this\<lparr>inputs := inputs this @ [s]\<rparr>))"

definition addOutput :: "ref \<Rightarrow> Mixer \<Rightarrow> outcome \<times> Mixer" where
  "addOutput s this =
     (if length (outputs this) = int_to_size_t MIXER_OUTPUTS
      then (Inl ''Too much outputs'', this)
      else (Inr (), this\<lparr>outputs := outputs this @ [s]\<rparr>))"

text \<open>The first loop of \<open>updateOutputs\<close>: \<open>sum_mass_flow += input_stream -> getMassFlow()\<close>
  for each input in order, starting from the accumulator passed in.\<close>

primrec sum_inputs :: "'d::plus heap \<Rightarrow> ref list \<Rightarrow> 'd \<Rightarrow> 'd" where
  "sum_inputs h [] sum_mass_flow = sum_mass_flow"
| "sum_inputs h (input_stream # rest) sum_mass_flow =
     sum_inputs h rest (sum_mass_flow + call_getMassFlow input_stream h)"

text \<open>The second loop: \<open>output_stream -> setMassFlow(output_mass)\<close> for each output in
  order.\<close>

primrec set_outputs :: "'d \<Rightarrow> ref list \<Rightarrow> 'd heap \<Rightarrow> 'd heap" where
  "set_outputs output_mass [] h = h"
| "set_outputs output_mass (output_stream # rest) h =
     set_outputs output_mass rest (call_setMassFlow output_stream output_mass h)"

definition updateOutputs ::
  "(nat \<Rightarrow> 'd) \<Rightarrow> Mixer \<Rightarrow> 'd::{zero,plus,inverse} heap \<Rightarrow> outcome \<times> 'd heap" where
  "updateOutputs size_to_double this h =
     (let sum_mass_flow = sum_inputs h (inputs this) 0 in
      if outputs this = []
      then (Inl ''Should set outputs before update'', h)
      else
        let output_mass = sum_mass_flow / size_to_double (length (outputs this)) in
        (Inr (), set_outputs output_mass (outputs this) h))"

subsection \<open>A caller's sequence of calls\<close>

text \<open>
  The callers in the source (\<open>main\<close> and \<open>Test1\<close> to \<open>Test7\<close>) make a sequence of
  calls on one mixer and catch what a call throws, so the next call runs in the state
  the failed call left behind. \<open>do_call\<close> is one such call on the pair of the mixer
  and the store, \<open>run_calls\<close> a sequence of them.
\<close>

datatype call = AddInput ref | AddOutput ref | UpdateOutputs

fun do_call ::
  "(nat \<Rightarrow> 'd) \<Rightarrow> call \<Rightarrow> Mixer \<times> 'd::{zero,plus,inverse} heap
     \<Rightarrow> outcome \<times> Mixer \<times> 'd heap" where
  "do_call size_to_double (AddInput s) (d1, h) =
     (case addInput s d1 of (r, d1') \<Rightarrow> (r, d1', h))"
| "do_call size_to_double (AddOutput s) (d1, h) =
     (case addOutput s d1 of (r, d1') \<Rightarrow> (r, d1', h))"
| "do_call size_to_double UpdateOutputs (d1, h) =
     (case updateOutputs size_to_double d1 h of (r, h') \<Rightarrow> (r, d1, h'))"

primrec run_calls ::
  "(nat \<Rightarrow> 'd) \<Rightarrow> call list \<Rightarrow> Mixer \<times> 'd::{zero,plus,inverse} heap
     \<Rightarrow> Mixer \<times> 'd heap" where
  "run_calls size_to_double [] st = st"
| "run_calls size_to_double (c # cs) st =
     run_calls size_to_double cs (snd (do_call size_to_double c st))"

subsection \<open>Observations used to state the properties\<close>

text \<open>The bound on both vectors: the number of inputs is at most the capacity given to
  the constructor (read as the signed \<open>int\<close> it is), the number of outputs at most 1.\<close>

definition capacity_invariant :: "Mixer \<Rightarrow> bool" where
  "capacity_invariant d1 \<longleftrightarrow>
     int (length (inputs d1)) \<le> sint (inputs_count d1) \<and> length (outputs d1) \<le> 1"

text \<open>The flows of the attached inputs, in order, as a call to \<open>updateOutputs\<close> made
  in store \<open>h\<close> reads them.\<close>

definition input_flows :: "Mixer \<Rightarrow> 'd heap \<Rightarrow> 'd list" where
  "input_flows d1 h = map (\<lambda>s. call_getMassFlow s h) (inputs d1)"

subsection \<open>The fixture of \<open>Test1\<close> and \<open>Test6\<close>\<close>

text \<open>
  Streams \<open>s1\<close>, \<open>s2\<close>, \<open>s3\<close> at addresses 1, 2, 3 with flows 10 and 5 on the first two;
  \<open>s3\<close> is never assigned before the update in the source, and holds 7 here. The mixer
  has capacity 2, inputs \<open>s1\<close> and \<open>s2\<close> and output \<open>s3\<close>. Flows are exact reals.
\<close>

definition stream_of :: "string \<Rightarrow> real \<Rightarrow> real Stream" where
  "stream_of n m = \<lparr>mass_flow = m, name = n\<rparr>"

definition test_heap :: "real heap" where
  "test_heap = (\<lambda>_. stream_of ''s0'' 0)
     (1 := stream_of ''s1'' 10, 2 := stream_of ''s2'' 5, 3 := stream_of ''s3'' 7)"

definition test_mixer :: Mixer where
  "test_mixer = \<lparr>inputs = [1, 2], outputs = [3], inputs_count = 2\<rparr>"

section \<open>Auxiliary facts\<close>

subsection \<open>The conversion from \<open>int\<close> to \<open>size_t\<close>\<close>

lemma int_to_size_t_eq: "int (int_to_size_t i) = sint i mod 2 ^ 64"
  by (simp add: int_to_size_t_def scast_eq unat_eq_nat_uint uint_word_of_int
      del: of_int_sint)

lemma sint32_upper:
  fixes i :: "32 word"
  shows "sint i < 2147483648"
  using sint_lt [of i] by simp

lemma int_to_size_t_nonneg:
  assumes "0 \<le> sint i"
  shows "int (int_to_size_t i) = sint i"
proof -
  have "sint i < 2 ^ 64" using sint32_upper [of i] by simp
  with assms show ?thesis by (simp add: int_to_size_t_eq)
qed

lemma int_to_size_t_MIXER_OUTPUTS: "int_to_size_t MIXER_OUTPUTS = 1"
  by (simp add: int_to_size_t_def MIXER_OUTPUTS_def)

subsection \<open>The two loops of \<open>updateOutputs\<close>\<close>

text \<open>The assignment loop writes the same value into every output and touches nothing
  else; the summing loop is a left fold of \<open>+\<close> over the flows it reads.\<close>

lemma set_outputs_eq:
  "set_outputs v outs h = (\<lambda>r. if r \<in> set outs then setMassFlow v (h r) else h r)"
proof (induction outs arbitrary: h)
  case Nil
  show ?case by simp
next
  case (Cons a outs)
  show ?case
    by (auto simp: Cons.IH call_setMassFlow_def setMassFlow_def fun_eq_iff)
qed

lemma sum_inputs_foldl:
  "sum_inputs h ins acc = foldl (+) acc (map (\<lambda>s. call_getMassFlow s h) ins)"
  by (induction ins arbitrary: acc) simp_all

lemma updateOutputs_fst:
  "fst (updateOutputs c d1 h) =
     (if outputs d1 = [] then Inl ''Should set outputs before update'' else Inr ())"
  by (simp add: updateOutputs_def Let_def)

lemma updateOutputs_snd:
  "snd (updateOutputs c d1 h) =
     (if outputs d1 = [] then h
      else set_outputs (foldl (+) 0 (input_flows d1 h) / c (length (outputs d1)))
             (outputs d1) h)"
  by (simp add: updateOutputs_def Let_def sum_inputs_foldl input_flows_def)

subsection \<open>Each call keeps the bound\<close>

lemma addInput_invariant:
  assumes "capacity_invariant d1"
  shows "capacity_invariant (snd (addInput s d1))"
proof (cases "length (inputs d1) = int_to_size_t (inputs_count d1)")
  case True
  with assms show ?thesis by (simp add: addInput_def)
next
  case False
  from assms have le: "int (length (inputs d1)) \<le> sint (inputs_count d1)"
    by (simp add: capacity_invariant_def)
  then have "0 \<le> sint (inputs_count d1)" by linarith
  then have "int (int_to_size_t (inputs_count d1)) = sint (inputs_count d1)"
    by (rule int_to_size_t_nonneg)
  with False le have "int (length (inputs d1)) + 1 \<le> sint (inputs_count d1)" by linarith
  with assms False show ?thesis by (simp add: addInput_def capacity_invariant_def)
qed

lemma addOutput_invariant:
  assumes "capacity_invariant d1"
  shows "capacity_invariant (snd (addOutput s d1))"
  using assms
  by (cases "outputs d1")
    (simp_all add: addOutput_def capacity_invariant_def int_to_size_t_MIXER_OUTPUTS)

lemma do_call_invariant:
  assumes "capacity_invariant (fst st)"
  shows "capacity_invariant (fst (snd (do_call size_to_double c st)))"
proof (cases st)
  case (Pair d1 h)
  with assms show ?thesis
    by (cases c) (simp_all add: case_prod_beta addInput_invariant addOutput_invariant)
qed

lemma run_calls_invariant:
  "capacity_invariant (fst st) \<Longrightarrow>
     capacity_invariant (fst (run_calls size_to_double cs st))"
  by (induction cs arbitrary: st) (simp_all add: do_call_invariant)

section \<open>Stream: set and get\<close>

text \<open>
  Claim C9. \<open>setMassFlow(v)\<close> stores \<open>v\<close> whatever its value (there is no test on \<open>v\<close>
  in the function, so negative values are stored like any other) and leaves the name
  alone; \<open>getMassFlow()\<close> right after returns exactly \<open>v\<close>. The same holds for the two
  calls made through a pointer to the stream.
\<close>

theorem setMassFlow_getMassFlow:
  "getMassFlow (setMassFlow v s) = v
   \<and> getName (setMassFlow v s) = getName s
   \<and> call_getMassFlow p (call_setMassFlow p v h) = v"
  by (simp add: getMassFlow_def setMassFlow_def getName_def
      call_getMassFlow_def call_setMassFlow_def)

section \<open>Mixer: attaching streams\<close>

text \<open>
  Claim C3. A mixer built with input capacity \<open>N\<close> that already holds \<open>N\<close> inputs
  refuses another one: \<open>addInput\<close> throws \<open>"Too much inputs"\<close> (the program's
  capacity-exceeded error for inputs) and the mixer, its input vector included, is as
  it was. While it holds fewer than \<open>N\<close> inputs, \<open>addInput\<close> returns normally and the
  stream is appended at the end of the input vector. \<open>N\<close> is the \<open>int\<close> given to the
  constructor, read as a signed number.
\<close>

theorem addInput_capacity:
  "(int (length (inputs d1)) = sint (inputs_count d1) \<longrightarrow>
      addInput s d1 = (Inl ''Too much inputs'', d1))
   \<and> (int (length (inputs d1)) < sint (inputs_count d1) \<longrightarrow>
      addInput s d1 = (Inr (), d1\<lparr>inputs := inputs d1 @ [s]\<rparr>))"
proof (intro conjI impI)
  assume full: "int (length (inputs d1)) = sint (inputs_count d1)"
  then have "0 \<le> sint (inputs_count d1)" by linarith
  then have "int (int_to_size_t (inputs_count d1)) = sint (inputs_count d1)"
    by (rule int_to_size_t_nonneg)
  with full have "length (inputs d1) = int_to_size_t (inputs_count d1)" by linarith
  then show "addInput s d1 = (Inl ''Too much inputs'', d1)"
    by (simp add: addInput_def)
next
  assume room: "int (length (inputs d1)) < sint (inputs_count d1)"
  then have "0 \<le> sint (inputs_count d1)" by linarith
  then have "int (int_to_size_t (inputs_count d1)) = sint (inputs_count d1)"
    by (rule int_to_size_t_nonneg)
  with room have "length (inputs d1) \<noteq> int_to_size_t (inputs_count d1)" by linarith
  then show "addInput s d1 = (Inr (), d1\<lparr>inputs := inputs d1 @ [s]\<rparr>)"
    by (simp add: addInput_def)
qed

text \<open>\<open>Test3\<close>: a third input on the full mixer of capacity 2 is refused and the count
  stays 2; the second input on a fresh mixer of capacity 2 is appended.\<close>

theorem addInput_capacity_witness:
  "addInput 4 test_mixer = (Inl ''Too much inputs'', test_mixer)
   \<and> length (inputs (snd (addInput 4 test_mixer))) = 2
   \<and> addInput 2 (snd (addInput 1 (new_Mixer 2)))
       = (Inr (), \<lparr>inputs = [1, 2], outputs = [], inputs_count = 2\<rparr>)"
  using addInput_capacity [of test_mixer 4]
    addInput_capacity [of "snd (addInput 1 (new_Mixer 2))" 2]
  by (simp add: test_mixer_def new_Mixer_def addInput_def int_to_size_t_def)

text \<open>
  Claim C4. A mixer that already has one output refuses another one: \<open>addOutput\<close>
  throws \<open>"Too much outputs"\<close> (the capacity-exceeded error for outputs) and the mixer
  is as it was. With no output attached, \<open>addOutput\<close> returns normally and the stream
  becomes the only output. The capacity is the constant \<open>MIXER_OUTPUTS = 1\<close>.
\<close>

theorem addOutput_capacity:
  "(length (outputs d1) = 1 \<longrightarrow> addOutput s d1 = (Inl ''Too much outputs'', d1))
   \<and> (outputs d1 = [] \<longrightarrow> addOutput s d1 = (Inr (), d1\<lparr>outputs := [s]\<rparr>))"
  by (simp add: addOutput_def int_to_size_t_MIXER_OUTPUTS)

text \<open>\<open>Test2\<close>: a second output is refused; the first one on a fresh mixer is attached.\<close>

theorem addOutput_capacity_witness:
  "addOutput 4 test_mixer = (Inl ''Too much outputs'', test_mixer)
   \<and> addOutput 3 (new_Mixer 2)
       = (Inr (), \<lparr>inputs = [], outputs = [3], inputs_count = 2\<rparr>)"
  using addOutput_capacity [of test_mixer 4] addOutput_capacity [of "new_Mixer 2" 3]
  by (simp add: test_mixer_def new_Mixer_def)

text \<open>
  Claim C5, as the code has it. For a mixer constructed with a non-negative input
  capacity, after every sequence of \<open>addInput\<close>, \<open>addOutput\<close> and \<open>updateOutputs\<close> calls,
  failing ones included, the number of inputs is at most the capacity and the number
  of outputs at most 1. The sequence is arbitrary, so the bound holds after each of
  its prefixes, that is, at all times, the empty sequence being the moment of
  construction.
\<close>

theorem capacity_invariant_nonneg:
  assumes "0 \<le> sint n"
  shows "capacity_invariant (fst (run_calls size_to_double cs (new_Mixer n, h)))"
proof -
  from assms have "capacity_invariant (new_Mixer n)"
    by (simp add: capacity_invariant_def new_Mixer_def)
  then show ?thesis by (simp add: run_calls_invariant)
qed

text \<open>The calls of \<open>Test1\<close> followed by one input and one output too many: the two
  refused calls leave the mixer of the fixture.\<close>

theorem capacity_invariant_nonneg_witness:
  "fst (run_calls real
        [AddInput 1, AddInput 2, AddOutput 3, UpdateOutputs, AddInput 4, AddOutput 4]
        (new_Mixer 2, test_heap)) = test_mixer
   \<and> capacity_invariant (fst (run_calls real
        [AddInput 1, AddInput 2, AddOutput 3, UpdateOutputs, AddInput 4, AddOutput 4]
        (new_Mixer 2, test_heap)))"
  using capacity_invariant_nonneg [of 2 real
      "[AddInput 1, AddInput 2, AddOutput 3, UpdateOutputs, AddInput 4, AddOutput 4]"
      test_heap]
  by (simp add: new_Mixer_def test_mixer_def addInput_def addOutput_def updateOutputs_def
      int_to_size_t_def MIXER_OUTPUTS_def)

text \<open>
  Claim C5, as stated for every mixer, fails for a negative capacity. The constructor
  takes any \<open>int\<close> and stores it unchecked, and \<open>addInput\<close> refuses only when the size
  \<^emph>\<open>equals\<close> the capacity converted to \<open>size_t\<close>. \<open>Mixer(-1)\<close> has 0 inputs, more than
  its capacity \<open>-1\<close>, from construction on; the converted capacity is \<open>2^64 - 1\<close>, so
  three inputs in a row are all accepted.
\<close>

theorem capacity_invariant_negative_counterexample:
  "\<not> capacity_invariant (fst (run_calls real [] (new_Mixer (- 1), test_heap)))
   \<and> fst (run_calls real [AddInput 1, AddInput 2, AddInput 3] (new_Mixer (- 1), test_heap))
       = \<lparr>inputs = [1, 2, 3], outputs = [], inputs_count = - 1\<rparr>
   \<and> \<not> capacity_invariant
        (fst (run_calls real [AddInput 1, AddInput 2, AddInput 3]
               (new_Mixer (- 1), test_heap)))"
  by (simp add: capacity_invariant_def new_Mixer_def addInput_def int_to_size_t_def
      unsigned_minus_1_eq_mask mask_eq_exp_minus_1)

section \<open>Mixer: updating the output\<close>

text \<open>
  Claim C2. On a mixer with no output attached, \<open>updateOutputs\<close> throws
  \<open>"Should set outputs before update"\<close> (the program's missing-output error) and the
  store of streams it leaves is the one it started in: no mass flow, and no other
  field of any stream, has changed. The test for the empty vector comes before the
  division and before the assignment loop.
\<close>

theorem updateOutputs_no_output:
  "outputs d1 = [] \<Longrightarrow>
     updateOutputs size_to_double d1 h = (Inl ''Should set outputs before update'', h)"
  by (simp add: updateOutputs_def)

text \<open>\<open>Test7\<close>: two inputs attached, no output.\<close>

theorem updateOutputs_no_output_witness:
  "updateOutputs real (snd (addInput 2 (snd (addInput 1 (new_Mixer 2))))) test_heap
     = (Inl ''Should set outputs before update'', test_heap)"
  using updateOutputs_no_output
    [of "snd (addInput 2 (snd (addInput 1 (new_Mixer 2))))" real test_heap]
  by (simp add: new_Mixer_def addInput_def int_to_size_t_def)

text \<open>
  Claim C1. On a mixer with two inputs carrying the flows \<open>a\<close> and \<open>b\<close>, of any sign,
  and one output, \<open>updateOutputs\<close> returns normally and the output's mass flow is then
  exactly \<open>a + b\<close>. The streams may be any streams, aliased or not.

  The code computes \<open>((0 + a) + b) / 1\<close>. That this is \<open>a + b\<close> rests on two facts of
  the arithmetic of \<open>double\<close>, which are the last two premises: adding \<open>a\<close> to the
  initial \<open>0\<close> gives \<open>a\<close>, and dividing the sum by the size 1 gives the sum. Nothing is
  assumed about how \<open>a + b\<close> itself is rounded. On the reals both premises are
  theorems, as the instance below shows. (In binary floating point, division by 1 is
  exact, and \<open>0 + a\<close> is \<open>a\<close> for every number \<open>a\<close>, the negative zero apart, for which
  it is the positive zero, equal to it under \<open>==\<close>.)
\<close>

theorem updateOutputs_two_inputs:
  assumes "inputs d1 = [s1, s2]" and "outputs d1 = [s3]"
    and "call_getMassFlow s1 h = a" and "call_getMassFlow s2 h = b"
    and "0 + a = a" and "(a + b) / size_to_double 1 = a + b"
  shows "fst (updateOutputs size_to_double d1 h) = Inr ()
    \<and> call_getMassFlow s3 (snd (updateOutputs size_to_double d1 h)) = a + b"
  using assms
  by (simp add: updateOutputs_fst updateOutputs_snd input_flows_def set_outputs_eq
      call_getMassFlow_def getMassFlow_def setMassFlow_def)

text \<open>\<open>Test1\<close>: inputs 10 and 5 give 15.\<close>

theorem updateOutputs_two_inputs_witness:
  "fst (updateOutputs real test_mixer test_heap) = Inr ()
    \<and> call_getMassFlow 3 (snd (updateOutputs real test_mixer test_heap)) = 15"
  using updateOutputs_two_inputs [of test_mixer 1 2 3 test_heap 10 5 real]
  by (simp add: test_mixer_def test_heap_def stream_of_def call_getMassFlow_def
      getMassFlow_def)

text \<open>
  Claim C6. On a mixer with no input and one output, \<open>updateOutputs\<close> returns normally
  and the output's mass flow is then 0, whatever it was before (the store \<open>h\<close> is
  arbitrary). The code computes \<open>0 / 1\<close>; that this is \<open>0\<close> is the one fact of
  \<open>double\<close> arithmetic used, stated as the last premise.
\<close>

theorem updateOutputs_no_input:
  assumes "inputs d1 = []" and "outputs d1 = [s1]" and "0 / size_to_double 1 = 0"
  shows "fst (updateOutputs size_to_double d1 h) = Inr ()
    \<and> call_getMassFlow s1 (snd (updateOutputs size_to_double d1 h)) = 0"
  using assms
  by (simp add: updateOutputs_fst updateOutputs_snd input_flows_def set_outputs_eq
      call_getMassFlow_def getMassFlow_def setMassFlow_def)

text \<open>\<open>Test5\<close>: only an output attached; its flow 7 becomes 0.\<close>

theorem updateOutputs_no_input_witness:
  "call_getMassFlow 3 test_heap = 7
   \<and> fst (updateOutputs real (snd (addOutput 3 (new_Mixer 2))) test_heap) = Inr ()
   \<and> call_getMassFlow 3
        (snd (updateOutputs real (snd (addOutput 3 (new_Mixer 2))) test_heap)) = 0"
  using updateOutputs_no_input [of "snd (addOutput 3 (new_Mixer 2))" 3 real test_heap]
  by (simp add: new_Mixer_def addOutput_def int_to_size_t_MIXER_OUTPUTS
      test_heap_def stream_of_def call_getMassFlow_def getMassFlow_def)

text \<open>
  Claim C7. \<open>updateOutputs\<close> depends on nothing but the flows the inputs carry when it
  is called. After a first update, let the caller set the flow of any attached input
  \<open>s\<close> to \<open>v\<close>, giving the store \<open>h2\<close>; a second update, on a mixer with one output,
  returns normally and leaves in the output the sum of the input flows of \<open>h2\<close>,
  added from 0 in the order of attachment. The result is written as a function of
  the list \<open>input_flows d1 h2\<close> alone. The last premise is the fact that dividing this
  sum by the size 1 gives the sum.
\<close>

theorem updateOutputs_recomputes:
  assumes "outputs d1 = [s3]" and "s \<in> set (inputs d1)"
    and "h2 = call_setMassFlow s v (snd (updateOutputs size_to_double d1 h))"
    and "foldl (+) 0 (input_flows d1 h2) / size_to_double 1
           = foldl (+) 0 (input_flows d1 h2)"
  shows "fst (updateOutputs size_to_double d1 h2) = Inr ()
    \<and> call_getMassFlow s3 (snd (updateOutputs size_to_double d1 h2))
        = foldl (+) 0 (input_flows d1 h2)"
  using assms(1,4)
  by (simp add: updateOutputs_fst updateOutputs_snd set_outputs_eq
      call_getMassFlow_def getMassFlow_def setMassFlow_def)

text \<open>\<open>Test6\<close>: inputs 10 and 5 give 15; with the first input set to 20 the next
  update gives 25.\<close>

theorem updateOutputs_recomputes_witness:
  "call_getMassFlow 3 (snd (updateOutputs real test_mixer test_heap)) = 15
   \<and> fst (updateOutputs real test_mixer
            (call_setMassFlow 1 20 (snd (updateOutputs real test_mixer test_heap)))) = Inr ()
   \<and> call_getMassFlow 3 (snd (updateOutputs real test_mixer
            (call_setMassFlow 1 20 (snd (updateOutputs real test_mixer test_heap))))) = 25"
  using updateOutputs_recomputes [of test_mixer 3 1
      "call_setMassFlow 1 20 (snd (updateOutputs real test_mixer test_heap))" 20 real
      test_heap]
  by (simp add: test_mixer_def test_heap_def stream_of_def input_flows_def
      updateOutputs_def set_outputs_eq
      call_setMassFlow_def call_getMassFlow_def getMassFlow_def setMassFlow_def)

text \<open>
  Claim C8. Two calls of \<open>updateOutputs\<close> in a row on the same mixer, with the input
  flows unchanged between them, give the same output flows. \<open>h1\<close> is the store the
  first call leaves; the input flows are unchanged when the second call reads from
  \<open>h1\<close> the flows the first call read from \<open>h\<close>. Then the second call ends as the
  first did (normally, or with the same exception), leaves the whole store as the
  first call left it, and so every output carries the flow the first call gave it.
  No arithmetic fact is needed. (Where an output is also an input, the first call may
  itself change an input flow; the premise then does not hold and nothing is
  claimed.)
\<close>

theorem updateOutputs_idempotent:
  assumes "h1 = snd (updateOutputs size_to_double d1 h)"
    and "input_flows d1 h1 = input_flows d1 h"
  shows "updateOutputs size_to_double d1 h1 = (fst (updateOutputs size_to_double d1 h), h1)
    \<and> (\<forall>s \<in> set (outputs d1).
          call_getMassFlow s (snd (updateOutputs size_to_double d1 h1))
            = call_getMassFlow s h1)"
proof -
  have "snd (updateOutputs size_to_double d1 h1) = h1"
    using assms
    by (auto simp: updateOutputs_snd set_outputs_eq setMassFlow_def fun_eq_iff)
  moreover have
    "fst (updateOutputs size_to_double d1 h1) = fst (updateOutputs size_to_double d1 h)"
    by (simp add: updateOutputs_fst)
  ultimately show ?thesis
    by (simp add: prod_eq_iff)
qed

text \<open>The fixture: 15 after the first call, and 15 again after the second.\<close>

theorem updateOutputs_idempotent_witness:
  "call_getMassFlow 3 (snd (updateOutputs real test_mixer test_heap)) = 15
   \<and> updateOutputs real test_mixer (snd (updateOutputs real test_mixer test_heap))
       = (Inr (), snd (updateOutputs real test_mixer test_heap))
   \<and> call_getMassFlow 3
        (snd (updateOutputs real test_mixer
               (snd (updateOutputs real test_mixer test_heap)))) = 15"
  using updateOutputs_idempotent [of "snd (updateOutputs real test_mixer test_heap)" real
      test_mixer test_heap]
  by (simp add: test_mixer_def test_heap_def stream_of_def input_flows_def
      updateOutputs_def set_outputs_eq
      call_setMassFlow_def call_getMassFlow_def getMassFlow_def setMassFlow_def)

text \<open>
  Claim C10. On a mixer none of whose inputs is the same stream object as one of its
  outputs, \<open>updateOutputs\<close> leaves the mass flow of every input as it was, and more:
  every stream that is not an output of the mixer is left untouched as a whole. This
  holds for the successful call, which is the claim, and for the failing one, which
  writes nothing.
\<close>

theorem updateOutputs_frame:
  assumes "set (inputs d1) \<inter> set (outputs d1) = {}"
  shows "(\<forall>s \<in> set (inputs d1).
            call_getMassFlow s (snd (updateOutputs size_to_double d1 h))
              = call_getMassFlow s h)
    \<and> (\<forall>s. s \<notin> set (outputs d1) \<longrightarrow> snd (updateOutputs size_to_double d1 h) s = h s)"
  using assms
  by (auto simp: updateOutputs_snd set_outputs_eq call_getMassFlow_def)

text \<open>The fixture: after the update the inputs still carry 10 and 5, and the stream at
  address 4, which is not attached, is as before.\<close>

theorem updateOutputs_frame_witness:
  "fst (updateOutputs real test_mixer test_heap) = Inr ()
   \<and> call_getMassFlow 1 (snd (updateOutputs real test_mixer test_heap)) = 10
   \<and> call_getMassFlow 2 (snd (updateOutputs real test_mixer test_heap)) = 5
   \<and> snd (updateOutputs real test_mixer test_heap) 4 = test_heap 4"
  using updateOutputs_frame [of test_mixer real test_heap]
  by (simp add: test_mixer_def test_heap_def stream_of_def call_getMassFlow_def
      getMassFlow_def updateOutputs_fst)

end
